theory Spec2Isabelle
  imports Main "HOL-Library.Sublist"
begin

section \<open>The scraper module \<^verbatim>\<open>web_scrapper/scraper.py\<close>\<close>

text \<open>
  The module has two functions, \<^verbatim>\<open>scrape_page\<close> and
  \<^verbatim>\<open>scrape_statistics_canada_daily\<close>. Both drive collaborators that the module
  does not implement (the Playwright browser engine, the filesystem, the \<^verbatim>\<open>json\<close>
  encoder). The embedding keeps the control flow of the two functions as it is written
  and takes the answers of the collaborators as parameters: each call of a collaborator
  either returns a value or raises, and the model is proved for every such answer.
\<close>

subsection \<open>Exceptions\<close>

text \<open>
  The \<^verbatim>\<open>try\<close> statement of \<^verbatim>\<open>scrape_page\<close> has two handlers,
  \<^verbatim>\<open>except PlaywrightTimeoutError\<close> and \<^verbatim>\<open>except Exception\<close>. An exception is
  modelled by the handler class it falls in together with \<^verbatim>\<open>str(e)\<close>, the only part
  of it the code reads. Every exception of the model is an instance of \<^verbatim>\<open>Exception\<close>;
  interrupts of the interpreter (\<^verbatim>\<open>KeyboardInterrupt\<close>, \<^verbatim>\<open>SystemExit\<close>) are
  not failures of a collaborator and are outside the model.
\<close>

datatype exn =
    PlaywrightTimeoutError string
  | OtherException string

fun str :: "exn \<Rightarrow> string" where
  "str (PlaywrightTimeoutError d) = d"
| "str (OtherException d) = d"

subsection \<open>The result dictionary\<close>

text \<open>The dictionary built at lines 37-44, with its six fixed keys.\<close>

record scrape_result =
  success :: bool
  url :: string
  title :: string
  content :: string
  html :: string
  error :: string

subsection \<open>The browser capability\<close>

text \<open>
  One field per call the code makes on Playwright, in the order of the source. The
  arguments the code passes are the arguments of the field, so that an answer may depend
  on them. \<^verbatim>\<open>pw_enter\<close> and \<^verbatim>\<open>pw_exit\<close> are the two ends of
  \<^verbatim>\<open>with sync_playwright() as p\<close>; Playwright's \<^verbatim>\<open>__exit__\<close> stops the driver
  and returns \<^verbatim>\<open>None\<close>, so it never swallows an exception of the body.
\<close>

record playwright =
  pw_enter :: "exn + unit"
  chromium_launch :: "bool \<Rightarrow> exn + unit"
  browser_new_page :: "exn + unit"
  page_goto :: "string \<Rightarrow> int \<Rightarrow> string \<Rightarrow> exn + unit"
  page_wait_for_selector :: "string \<Rightarrow> int \<Rightarrow> exn + unit"
  page_title :: "exn + string"
  page_inner_text :: "string \<Rightarrow> exn + string"
  page_content :: "exn + string"
  browser_close :: "exn + unit"
  pw_exit :: "exn + unit"

text \<open>The calls made on the capability, recorded in the order they are made.\<close>

datatype event =
    EnterPlaywright
  | Launch bool
  | NewPage
  | Goto string int string
  | WaitForSelector string int
  | Title
  | InnerText string
  | Content
  | CloseBrowser
  | ExitPlaywright

subsection \<open>Statements that mutate the result and may raise\<close>

text \<open>
  The state of one run of \<^verbatim>\<open>scrape_page\<close>: the dictionary \<^verbatim>\<open>result\<close>, which the
  body mutates in place and which therefore keeps every assignment made before an
  exception, and the calls made so far.
\<close>

record run_state =
  result :: scrape_result
  events :: "event list"

type_synonym 'a stmt = "run_state \<Rightarrow> (exn + 'a) \<times> run_state"

definition call :: "event \<Rightarrow> exn + 'a \<Rightarrow> 'a stmt" where
  "call ev answer s = (answer, s\<lparr>events := events s @ [ev]\<rparr>)"

definition assign :: "(scrape_result \<Rightarrow> scrape_result) \<Rightarrow> unit stmt" where
  "assign f s = (Inr (), s\<lparr>result := f (result s)\<rparr>)"

definition skip :: "unit stmt" where
  "skip s = (Inr (), s)"

text \<open>Sequencing: an exception of the first statement skips the rest.\<close>

definition seq :: "'a stmt \<Rightarrow> ('a \<Rightarrow> 'b stmt) \<Rightarrow> 'b stmt" where
  "seq m f s = (case m s of
      (Inl e, s') \<Rightarrow> (Inl e, s')
    | (Inr a, s') \<Rightarrow> f a s')"

text \<open>
  \<^verbatim>\<open>with sync_playwright() as p: body\<close>. If entering raises, the body and the exit
  are skipped. Otherwise the exit runs whether the body returned or raised; an exception
  of the exit replaces the one of the body.
\<close>

definition with_sync_playwright :: "playwright \<Rightarrow> unit stmt \<Rightarrow> unit stmt" where
  "with_sync_playwright pw body s =
     (case call EnterPlaywright (pw_enter pw) s of
        (Inl e, s1) \<Rightarrow> (Inl e, s1)
      | (Inr _, s1) \<Rightarrow>
          (case body s1 of
             (outcome, s2) \<Rightarrow>
               (case call ExitPlaywright (pw_exit pw) s2 of
                  (Inl e, s3) \<Rightarrow> (Inl e, s3)
                | (Inr _, s3) \<Rightarrow> (outcome, s3))))"

subsection \<open>\<^verbatim>\<open>scrape_page\<close>\<close>

text \<open>Python's truth value of an \<^verbatim>\<open>Optional[str]\<close>: \<^verbatim>\<open>None\<close> and \<^verbatim>\<open>""\<close> are false.\<close>

fun truthy :: "string option \<Rightarrow> bool" where
  "truthy None = False"
| "truthy (Some s) = (s \<noteq> [])"

text \<open>Lines 37-44.\<close>

definition initial_result :: "string \<Rightarrow> scrape_result" where
  "initial_result u =
     \<lparr>success = False, url = u, title = [], content = [], html = [], error = []\<rparr>"

text \<open>Lines 49-66, the body of the \<^verbatim>\<open>with\<close> statement.\<close>

definition with_body ::
  "playwright \<Rightarrow> string \<Rightarrow> bool \<Rightarrow> int \<Rightarrow> string option \<Rightarrow> unit stmt" where
  "with_body pw u headless timeout wait_for_selector =
     seq (call (Launch headless) (chromium_launch pw headless)) (\<lambda>_.
     seq (call NewPage (browser_new_page pw)) (\<lambda>_.
     seq (call (Goto u timeout ''networkidle'') (page_goto pw u timeout ''networkidle'')) (\<lambda>_.
     seq (if truthy wait_for_selector
          then call (WaitForSelector (the wait_for_selector) timeout)
                 (page_wait_for_selector pw (the wait_for_selector) timeout)
          else skip) (\<lambda>_.
     seq (call Title (page_title pw)) (\<lambda>t.
     seq (assign (\<lambda>r. r\<lparr>title := t\<rparr>)) (\<lambda>_.
     seq (call (InnerText ''body'') (page_inner_text pw ''body'')) (\<lambda>c.
     seq (assign (\<lambda>r. r\<lparr>content := c\<rparr>)) (\<lambda>_.
     seq (call Content (page_content pw)) (\<lambda>h.
     seq (assign (\<lambda>r. r\<lparr>html := h\<rparr>)) (\<lambda>_.
     seq (assign (\<lambda>r. r\<lparr>success := True\<rparr>)) (\<lambda>_.
     call CloseBrowser (browser_close pw))))))))))))"

text \<open>Lines 46-66, the \<^verbatim>\<open>try\<close> block.\<close>

definition try_block ::
  "playwright \<Rightarrow> string \<Rightarrow> bool \<Rightarrow> int \<Rightarrow> string option \<Rightarrow> unit stmt" where
  "try_block pw u headless timeout wait_for_selector =
     with_sync_playwright pw (with_body pw u headless timeout wait_for_selector)"

text \<open>Lines 68-71, the two handlers, tried in the order of the source.\<close>

fun handler :: "exn \<Rightarrow> unit stmt" where
  "handler (PlaywrightTimeoutError d) =
     assign (\<lambda>r. r\<lparr>error := ''Timeout error: '' @ str (PlaywrightTimeoutError d)\<rparr>)"
| "handler (OtherException d) =
     assign (\<lambda>r. r\<lparr>error := ''Error scraping page: '' @ str (OtherException d)\<rparr>)"

text \<open>
  The whole function. What it gives back is either the returned dictionary or the
  exception that leaves the function, together with the calls it made on the capability.
\<close>

definition scrape_page ::
  "playwright \<Rightarrow> string \<Rightarrow> bool \<Rightarrow> int \<Rightarrow> string option \<Rightarrow> (exn + scrape_result) \<times> event list" where
  "scrape_page pw u headless timeout wait_for_selector =
     (let s0 = \<lparr>result = initial_result u, events = []\<rparr> in
      case try_block pw u headless timeout wait_for_selector s0 of
        (Inr _, s1) \<Rightarrow> (Inr (result s1), events s1)
      | (Inl e, s1) \<Rightarrow>
          (case handler e s1 of
             (Inr _, s2) \<Rightarrow> (Inr (result s2), events s2)
           | (Inl e', s2) \<Rightarrow> (Inl e', events s2)))"


subsection \<open>Stages of a run\<close>

text \<open>
  Which calls of the capability answer without raising. \<open>navigated\<close>: everything up to
  and including the optional selector wait; \<open>extracted\<close>: also the three extraction
  calls; \<open>completed\<close>: also \<^verbatim>\<open>browser.close()\<close> and the exit of the Playwright
  scope, that is, no exception reaches the handlers.
\<close>

fun returns :: "exn + 'a \<Rightarrow> bool" where
  "returns (Inl e) = False"
| "returns (Inr v) = True"

definition navigated :: "playwright \<Rightarrow> string \<Rightarrow> bool \<Rightarrow> int \<Rightarrow> string option \<Rightarrow> bool" where
  "navigated pw u headless timeout wait_for_selector \<longleftrightarrow>
     returns (pw_enter pw) \<and> returns (chromium_launch pw headless) \<and>
     returns (browser_new_page pw) \<and> returns (page_goto pw u timeout ''networkidle'') \<and>
     (truthy wait_for_selector \<longrightarrow>
        returns (page_wait_for_selector pw (the wait_for_selector) timeout))"

definition extracted :: "playwright \<Rightarrow> string \<Rightarrow> bool \<Rightarrow> int \<Rightarrow> string option \<Rightarrow> bool" where
  "extracted pw u headless timeout wait_for_selector \<longleftrightarrow>
     navigated pw u headless timeout wait_for_selector \<and>
     returns (page_title pw) \<and> returns (page_inner_text pw ''body'') \<and> returns (page_content pw)"

definition completed :: "playwright \<Rightarrow> string \<Rightarrow> bool \<Rightarrow> int \<Rightarrow> string option \<Rightarrow> bool" where
  "completed pw u headless timeout wait_for_selector \<longleftrightarrow>
     extracted pw u headless timeout wait_for_selector \<and>
     returns (browser_close pw) \<and> returns (pw_exit pw)"

fun value_or_empty :: "exn + string \<Rightarrow> string" where
  "value_or_empty (Inl e) = []"
| "value_or_empty (Inr v) = v"

text \<open>The text either handler stores in \<^verbatim>\<open>result["error"]\<close>.\<close>

fun error_message :: "exn \<Rightarrow> string" where
  "error_message (PlaywrightTimeoutError d) = ''Timeout error: '' @ d"
| "error_message (OtherException d) = ''Error scraping page: '' @ d"

text \<open>The calls made from the launch up to the optional selector wait.\<close>

definition navigation_events :: "string \<Rightarrow> bool \<Rightarrow> int \<Rightarrow> string option \<Rightarrow> event list" where
  "navigation_events u headless timeout wait_for_selector =
     [Launch headless, NewPage, Goto u timeout ''networkidle''] @
     (if truthy wait_for_selector then [WaitForSelector (the wait_for_selector) timeout] else [])"

subsection \<open>Concrete capabilities\<close>

text \<open>
  A page that loads and answers every call, and variants of it in which one call raises.
\<close>

definition example_page :: playwright where
  "example_page =
     \<lparr>pw_enter = Inr (), chromium_launch = (\<lambda>_. Inr ()), browser_new_page = Inr (),
      page_goto = (\<lambda>_ _ _. Inr ()), page_wait_for_selector = (\<lambda>_ _. Inr ()),
      page_title = Inr ''Example Domain'', page_inner_text = (\<lambda>_. Inr ''Example body''),
      page_content = Inr ''<html></html>'', browser_close = Inr (), pw_exit = Inr ()\<rparr>"

definition goto_times_out :: playwright where
  "goto_times_out =
     example_page\<lparr>page_goto := (\<lambda>_ _ _. Inl (PlaywrightTimeoutError ''Timeout 30000ms exceeded.''))\<rparr>"

definition inner_text_fails :: playwright where
  "inner_text_fails = example_page\<lparr>page_inner_text := (\<lambda>_. Inl (OtherException ''no body''))\<rparr>"

definition content_fails :: playwright where
  "content_fails = example_page\<lparr>page_content := Inl (OtherException ''Page crashed'')\<rparr>"

definition close_fails :: playwright where
  "close_fails = example_page\<lparr>browser_close := Inl (OtherException ''Target closed'')\<rparr>"


section \<open>The sample runner \<^verbatim>\<open>scrape_statistics_canada_daily\<close>\<close>

subsection \<open>The text \<^verbatim>\<open>json.dump\<close> writes\<close>

text \<open>
  A Python \<^verbatim>\<open>str\<close> is modelled as a \<^typ>\<open>string\<close>, a list of characters with the
  code points \<open>0\<close> to \<open>255\<close>; the characters from \<open>128\<close> on are the non-ASCII ones of
  the model. The encoder is the one of the standard library for a dictionary from
  strings to strings: \<^verbatim>\<open>"\<close>, \<^verbatim>\<open>\\<close> and the control characters are escaped, and
  with \<^verbatim>\<open>ensure_ascii\<close> also every character outside the printable ASCII range.
\<close>

definition hex_digit :: "nat \<Rightarrow> char" where
  "hex_digit n = ''0123456789abcdef'' ! n"

definition escape_char :: "bool \<Rightarrow> char \<Rightarrow> string" where
  "escape_char ensure_ascii c =
     (if c = CHR 0x22 then [CHR 0x5C, CHR 0x22]
      else if c = CHR 0x5C then [CHR 0x5C, CHR 0x5C]
      else if c = CHR 0x0A then [CHR 0x5C, CHR ''n'']
      else if c = CHR 0x0D then [CHR 0x5C, CHR ''r'']
      else if c = CHR 0x09 then [CHR 0x5C, CHR ''t'']
      else if c = CHR 0x08 then [CHR 0x5C, CHR ''b'']
      else if c = CHR 0x0C then [CHR 0x5C, CHR ''f'']
      else if (of_char c :: nat) < 32 \<or> (ensure_ascii \<and> 126 < (of_char c :: nat))
      then [CHR 0x5C, CHR ''u'', CHR ''0'', CHR ''0'',
            hex_digit (of_char c div 16), hex_digit (of_char c mod 16)]
      else [c])"

definition encode_basestring :: "bool \<Rightarrow> string \<Rightarrow> string" where
  "encode_basestring ensure_ascii s =
     [CHR 0x22] @ concat (map (escape_char ensure_ascii) s) @ [CHR 0x22]"

text \<open>
  With an indent, every item starts on a line of its own, items are separated by a comma,
  key and value by a colon and a space, and the closing brace is on a line of its own.
\<close>

definition newline_indent :: "nat \<Rightarrow> string" where
  "newline_indent indent = CHR 0x0A # replicate indent (CHR '' '')"

definition json_item :: "bool \<Rightarrow> string \<times> string \<Rightarrow> string" where
  "json_item ensure_ascii kv =
     encode_basestring ensure_ascii (fst kv) @ '': '' @ encode_basestring ensure_ascii (snd kv)"

fun json_items :: "bool \<Rightarrow> nat \<Rightarrow> (string \<times> string) list \<Rightarrow> string" where
  "json_items ensure_ascii indent [] = []"
| "json_items ensure_ascii indent [kv] = json_item ensure_ascii kv"
| "json_items ensure_ascii indent (kv # kvs) =
     json_item ensure_ascii kv @ '','' @ newline_indent indent @
     json_items ensure_ascii indent kvs"

definition json_dump :: "(string \<times> string) list \<Rightarrow> nat \<Rightarrow> bool \<Rightarrow> string" where
  "json_dump obj indent ensure_ascii =
     (if obj = [] then ''{}''
      else ''{'' @ newline_indent indent @ json_items ensure_ascii indent obj @ [CHR 0x0A] @ ''}'')"

subsection \<open>Reading the text back\<close>









subsection \<open>UTF-8\<close>

text \<open>
  The bytes of a text opened with \<^verbatim>\<open>encoding="utf-8"\<close>: one byte for a code point
  below 128, two bytes for the others of the model.
\<close>

type_synonym byte = nat

definition utf8_char :: "char \<Rightarrow> byte list" where
  "utf8_char c =
     (if (of_char c :: nat) < 128 then [of_char c]
      else [192 + of_char c div 64, 128 + of_char c mod 64])"

definition utf8_encode :: "string \<Rightarrow> byte list" where
  "utf8_encode s = concat (map utf8_char s)"



subsection \<open>The filesystem\<close>

text \<open>
  A path is the list of its components, the empty list being the directory the path is
  relative to; \<^verbatim>\<open>Path.parent\<close> drops the last component. The filesystem maps a path
  to what is there. An operation fails when the filesystem itself forbids it (a file
  where a directory is needed, a directory where a file is to be written) or when the
  environment says so (permissions, a full disk): \<open>mkdir_error\<close>, \<open>open_error\<close> and
  \<open>write_error\<close>, the last with the number of bytes that reached the file.
\<close>

type_synonym path = "string list"

datatype node = Directory | File "byte list"

type_synonym filesystem = "path \<Rightarrow> node option"

record os =
  mkdir_error :: "path \<Rightarrow> exn option"
  open_error :: "path \<Rightarrow> exn option"
  write_error :: "path \<Rightarrow> (exn \<times> nat) option"

definition parent :: "path \<Rightarrow> path" where
  "parent p = butlast p"

text \<open>A directory and the directories above it, the outermost first.\<close>

definition ancestors_and_self :: "path \<Rightarrow> path list" where
  "ancestors_and_self d = map (\<lambda>n. take n d) [1..<Suc (length d)]"

text \<open>
  \<^verbatim>\<open>mkdir(parents=True, exist_ok=True)\<close>: a directory that exists is left alone, a
  missing one is created, a file in the way raises.
\<close>

fun mkdirs :: "os \<Rightarrow> path list \<Rightarrow> filesystem \<Rightarrow> (exn + unit) \<times> filesystem" where
  "mkdirs env [] fs = (Inr (), fs)"
| "mkdirs env (d # ds) fs =
     (case fs d of
        Some Directory \<Rightarrow> mkdirs env ds fs
      | Some (File _) \<Rightarrow> (Inl (OtherException ''File exists''), fs)
      | None \<Rightarrow>
          (case mkdir_error env d of
             Some e \<Rightarrow> (Inl e, fs)
           | None \<Rightarrow> mkdirs env ds (fs(d \<mapsto> Directory))))"

definition mkdir_parents :: "os \<Rightarrow> path \<Rightarrow> filesystem \<Rightarrow> (exn + unit) \<times> filesystem" where
  "mkdir_parents env d fs = mkdirs env (ancestors_and_self d) fs"

text \<open>\<^verbatim>\<open>open(output_file, "w", encoding="utf-8")\<close>: creates the file or empties it.\<close>

definition open_w :: "os \<Rightarrow> path \<Rightarrow> filesystem \<Rightarrow> exn + filesystem" where
  "open_w env p fs =
     (if p = [] \<or> fs p = Some Directory then Inl (OtherException ''Is a directory'')
      else if parent p \<noteq> [] \<and> fs (parent p) \<noteq> Some Directory
      then Inl (OtherException ''No such file or directory'')
      else case open_error env p of
             Some e \<Rightarrow> Inl e
           | None \<Rightarrow> Inr (fs(p \<mapsto> File [])))"

text \<open>Writing the text and closing the file, the end of the \<^verbatim>\<open>with open\<close> block.\<close>

definition write_text :: "os \<Rightarrow> path \<Rightarrow> string \<Rightarrow> filesystem \<Rightarrow> (exn + unit) \<times> filesystem" where
  "write_text env p text fs =
     (case write_error env p of
        Some (e, n) \<Rightarrow> (Inl e, fs(p \<mapsto> File (take n (utf8_encode text))))
      | None \<Rightarrow> (Inr (), fs(p \<mapsto> File (utf8_encode text))))"

subsection \<open>\<^verbatim>\<open>scrape_statistics_canada_daily\<close>\<close>

text \<open>
  What the function changes besides its result: the filesystem and the lines printed.
  A printed line is kept by its kind and the values formatted into it.
\<close>

datatype progress =
    Scraping string
  | Scraped string
  | ContentLength nat
  | SavedTo path
  | ErrorLine string

record world =
  files :: filesystem
  stdout :: "progress list"

definition print :: "progress \<Rightarrow> world \<Rightarrow> world" where
  "print line w = w\<lparr>stdout := stdout w @ [line]\<rparr>"

text \<open>Line 86.\<close>

definition statcan_url :: string where
  "statcan_url = ''https://www150.statcan.gc.ca/n1/daily-quotidien/260216/dq260216a-eng.htm''"

text \<open>Lines 104-108, the dictionary that is saved, in the order of its keys.\<close>

definition save_data :: "scrape_result \<Rightarrow> (string \<times> string) list" where
  "save_data r = [(''url'', url r), (''title'', title r), (''content'', content r)]"

text \<open>
  Lines 86-117. \<^verbatim>\<open>output_file\<close> is an \<^verbatim>\<open>Optional[Path]\<close>, and a \<^verbatim>\<open>Path\<close> is
  always true. Nothing catches an exception here: one raised by a step is what the
  function gives back, with the filesystem as that step left it.
\<close>

definition scrape_statistics_canada_daily ::
  "os \<Rightarrow> playwright \<Rightarrow> path option \<Rightarrow> world \<Rightarrow> (exn + scrape_result) \<times> world" where
  "scrape_statistics_canada_daily env pw output_file w =
     (let w1 = print (Scraping statcan_url) w in
      case fst (scrape_page pw statcan_url True 30000 (Some ''main'')) of
        Inl e \<Rightarrow> (Inl e, w1)
      | Inr r \<Rightarrow>
          if success r then
            (let w2 = print (Scraped (title r)) w1;
                 w3 = print (ContentLength (length (content r))) w2
             in case output_file of
                  None \<Rightarrow> (Inr r, w3)
                | Some p \<Rightarrow>
                    (case mkdir_parents env (parent p) (files w3) of
                       (Inl e, fs1) \<Rightarrow> (Inl e, w3\<lparr>files := fs1\<rparr>)
                     | (Inr _, fs1) \<Rightarrow>
                         (case open_w env p fs1 of
                            Inl e \<Rightarrow> (Inl e, w3\<lparr>files := fs1\<rparr>)
                          | Inr fs2 \<Rightarrow>
                              (case write_text env p (json_dump (save_data r) 2 False) fs2 of
                                 (Inl e, fs3) \<Rightarrow> (Inl e, w3\<lparr>files := fs3\<rparr>)
                               | (Inr _, fs3) \<Rightarrow>
                                   (Inr r, print (SavedTo p) (w3\<lparr>files := fs3\<rparr>))))))
          else (Inr r, print (ErrorLine (error r)) w1))"

subsection \<open>Concrete filesystems\<close>

definition output_path :: path where
  "output_path = [''output'', ''statcan_daily.json'']"

definition no_faults :: os where
  "no_faults = \<lparr>mkdir_error = (\<lambda>_. None), open_error = (\<lambda>_. None), write_error = (\<lambda>_. None)\<rparr>"

definition read_only :: os where
  "read_only = no_faults\<lparr>mkdir_error := (\<lambda>_. Some (OtherException ''Permission denied''))\<rparr>"


definition empty_world :: world where
  "empty_world = \<lparr>files = Map.empty, stdout = []\<rparr>"

section \<open>Properties of \<^verbatim>\<open>scrape_page\<close>\<close>

subsection \<open>The paths through the body\<close>

text \<open>
  The body of the \<^verbatim>\<open>with\<close> statement either stops at the first call that raises,
  with the assignments made so far, or runs to its end. One case per stopping point.
\<close>

lemmas stmt_defs = with_body_def seq_def call_def assign_def skip_def navigation_events_def

lemma with_body_cases [case_names launch new_page goto wait title inner_text content close finished]:
  obtains
    (launch) e where
      "chromium_launch pw h = Inl e"
      "with_body pw u h t sel s = (Inl e, s\<lparr>events := events s @ [Launch h]\<rparr>)"
  | (new_page) e where
      "chromium_launch pw h = Inr ()" "browser_new_page pw = Inl e"
      "with_body pw u h t sel s = (Inl e, s\<lparr>events := events s @ [Launch h, NewPage]\<rparr>)"
  | (goto) e where
      "chromium_launch pw h = Inr ()" "browser_new_page pw = Inr ()"
      "page_goto pw u t ''networkidle'' = Inl e"
      "with_body pw u h t sel s =
         (Inl e, s\<lparr>events := events s @ [Launch h, NewPage, Goto u t ''networkidle'']\<rparr>)"
  | (wait) e where
      "chromium_launch pw h = Inr ()" "browser_new_page pw = Inr ()"
      "page_goto pw u t ''networkidle'' = Inr ()"
      "truthy sel" "page_wait_for_selector pw (the sel) t = Inl e"
      "with_body pw u h t sel s =
         (Inl e, s\<lparr>events := events s @ navigation_events u h t sel\<rparr>)"
  | (title) e where
      "chromium_launch pw h = Inr ()" "browser_new_page pw = Inr ()"
      "page_goto pw u t ''networkidle'' = Inr ()"
      "truthy sel \<longrightarrow> page_wait_for_selector pw (the sel) t = Inr ()"
      "page_title pw = Inl e"
      "with_body pw u h t sel s =
         (Inl e, s\<lparr>events := events s @ navigation_events u h t sel @ [Title]\<rparr>)"
  | (inner_text) e tt where
      "chromium_launch pw h = Inr ()" "browser_new_page pw = Inr ()"
      "page_goto pw u t ''networkidle'' = Inr ()"
      "truthy sel \<longrightarrow> page_wait_for_selector pw (the sel) t = Inr ()"
      "page_title pw = Inr tt" "page_inner_text pw ''body'' = Inl e"
      "with_body pw u h t sel s =
         (Inl e, s\<lparr>result := (result s)\<lparr>title := tt\<rparr>,
                    events := events s @ navigation_events u h t sel @ [Title, InnerText ''body'']\<rparr>)"
  | (content) e tt c where
      "chromium_launch pw h = Inr ()" "browser_new_page pw = Inr ()"
      "page_goto pw u t ''networkidle'' = Inr ()"
      "truthy sel \<longrightarrow> page_wait_for_selector pw (the sel) t = Inr ()"
      "page_title pw = Inr tt" "page_inner_text pw ''body'' = Inr c" "page_content pw = Inl e"
      "with_body pw u h t sel s =
         (Inl e, s\<lparr>result := (result s)\<lparr>title := tt, content := c\<rparr>,
                    events := events s @ navigation_events u h t sel @
                      [Title, InnerText ''body'', Content]\<rparr>)"
  | (close) e tt c hh where
      "chromium_launch pw h = Inr ()" "browser_new_page pw = Inr ()"
      "page_goto pw u t ''networkidle'' = Inr ()"
      "truthy sel \<longrightarrow> page_wait_for_selector pw (the sel) t = Inr ()"
      "page_title pw = Inr tt" "page_inner_text pw ''body'' = Inr c" "page_content pw = Inr hh"
      "browser_close pw = Inl e"
      "with_body pw u h t sel s =
         (Inl e, s\<lparr>result := (result s)\<lparr>title := tt, content := c, html := hh, success := True\<rparr>,
                    events := events s @ navigation_events u h t sel @
                      [Title, InnerText ''body'', Content, CloseBrowser]\<rparr>)"
  | (finished) tt c hh where
      "chromium_launch pw h = Inr ()" "browser_new_page pw = Inr ()"
      "page_goto pw u t ''networkidle'' = Inr ()"
      "truthy sel \<longrightarrow> page_wait_for_selector pw (the sel) t = Inr ()"
      "page_title pw = Inr tt" "page_inner_text pw ''body'' = Inr c" "page_content pw = Inr hh"
      "browser_close pw = Inr ()"
      "with_body pw u h t sel s =
         (Inr (), s\<lparr>result := (result s)\<lparr>title := tt, content := c, html := hh, success := True\<rparr>,
                    events := events s @ navigation_events u h t sel @
                      [Title, InnerText ''body'', Content, CloseBrowser]\<rparr>)"
proof (cases "chromium_launch pw h")
  case (Inl e)
  then show ?thesis by (intro launch[of e]) (simp_all add: stmt_defs)
next
  case l: (Inr x)
  show ?thesis
  proof (cases "browser_new_page pw")
    case (Inl e)
    then show ?thesis using l by (intro new_page[of e]) (simp_all add: stmt_defs)
  next
    case n: (Inr x)
    show ?thesis
    proof (cases "page_goto pw u t ''networkidle''")
      case (Inl e)
      then show ?thesis using l n by (intro goto[of e]) (simp_all add: stmt_defs)
    next
      case g: (Inr x)
      show ?thesis
      proof (cases "truthy sel \<longrightarrow> page_wait_for_selector pw (the sel) t = Inr ()")
        case False
        then obtain e where "truthy sel" "page_wait_for_selector pw (the sel) t = Inl e"
          by (cases "page_wait_for_selector pw (the sel) t") auto
        then show ?thesis using l n g by (intro wait[of e]) (simp_all add: stmt_defs)
      next
        case w: True
        show ?thesis
        proof (cases "page_title pw")
          case (Inl e)
          then show ?thesis using l n g w by (intro title[of e]) (auto simp add: stmt_defs)
        next
          case tt: (Inr tt)
          show ?thesis
          proof (cases "page_inner_text pw ''body''")
            case (Inl e)
            then show ?thesis using l n g w tt
              by (intro inner_text[of tt e]) (auto simp add: stmt_defs)
          next
            case c: (Inr c)
            show ?thesis
            proof (cases "page_content pw")
              case (Inl e)
              then show ?thesis using l n g w tt c
                by (intro content[of tt c e]) (auto simp add: stmt_defs)
            next
              case hh: (Inr hh)
              show ?thesis
              proof (cases "browser_close pw")
                case (Inl e)
                then show ?thesis using l n g w tt c hh
                  by (intro close[of tt c hh e]) (auto simp add: stmt_defs)
              next
                case (Inr x)
                then show ?thesis using l n g w tt c hh
                  by (intro finished[of tt c hh]) (auto simp add: stmt_defs)
              qed
            qed
          qed
        qed
      qed
    qed
  qed
qed

lemma handler_eq:
  "handler e s = (Inr (), s\<lparr>result := (result s)\<lparr>error := error_message e\<rparr>\<rparr>)"
  by (cases e) (simp_all add: assign_def)

lemma try_block_enter_raises:
  "pw_enter pw = Inl e \<Longrightarrow>
   try_block pw u h t sel s = (Inl e, s\<lparr>events := events s @ [EnterPlaywright]\<rparr>)"
  by (simp add: try_block_def with_sync_playwright_def call_def)

lemma try_block_entered:
  "pw_enter pw = Inr () \<Longrightarrow>
   with_body pw u h t sel (s\<lparr>events := events s @ [EnterPlaywright]\<rparr>) = (outcome, s2) \<Longrightarrow>
   try_block pw u h t sel s =
     (case pw_exit pw of Inl e \<Rightarrow> Inl e | Inr _ \<Rightarrow> outcome,
      s2\<lparr>events := events s2 @ [ExitPlaywright]\<rparr>)"
  by (simp add: try_block_def with_sync_playwright_def call_def split: sum.splits)

lemma scrape_page_eq:
  "try_block pw u h t sel \<lparr>result = initial_result u, events = []\<rparr> = (outcome, s1) \<Longrightarrow>
   scrape_page pw u h t sel =
     (Inr (case outcome of Inr _ \<Rightarrow> result s1
                         | Inl e \<Rightarrow> (result s1)\<lparr>error := error_message e\<rparr>), events s1)"
  by (simp add: scrape_page_def Let_def handler_eq split: sum.splits)


lemma error_message_nonempty: "error_message e \<noteq> []"
  by (cases e) simp_all

lemma scrape_page_enter_raises:
  "pw_enter pw = Inl e \<Longrightarrow>
   scrape_page pw u h t sel = (Inr ((initial_result u)\<lparr>error := error_message e\<rparr>), [EnterPlaywright])"
  using scrape_page_eq [OF try_block_enter_raises] by fastforce

lemma scrape_page_entered:
  "pw_enter pw = Inr () \<Longrightarrow>
   with_body pw u h t sel \<lparr>result = initial_result u, events = [EnterPlaywright]\<rparr> = (outcome, s2) \<Longrightarrow>
   scrape_page pw u h t sel =
     (Inr (case (case pw_exit pw of Inl e \<Rightarrow> Inl e | Inr _ \<Rightarrow> outcome) of
             Inr _ \<Rightarrow> result s2
           | Inl e \<Rightarrow> (result s2)\<lparr>error := error_message e\<rparr>),
      events s2 @ [ExitPlaywright])"
  using scrape_page_eq [OF try_block_entered, of pw u h t sel outcome s2]
  by (simp split: sum.splits)

lemmas stage_defs = completed_def extracted_def navigated_def

lemmas run_defs = scrape_page_def try_block_def with_sync_playwright_def with_body_def seq_def
  call_def assign_def skip_def initial_result_def Let_def example_page_def goto_times_out_def
  inner_text_fails_def content_fails_def close_fails_def



subsection \<open>The returned record\<close>




text \<open>
  Claim C2, as amended. Whenever a call up to and including the extraction raises, the
  record has \<open>success = False\<close>, a non-empty \<open>error\<close>, \<open>url\<close> equal to the argument
  and an empty \<open>html\<close>. \<open>title\<close> and \<open>content\<close> are empty when the exception came
  before the extraction; otherwise they keep what was extracted before the call that
  raised.
\<close>

theorem failure_keeps_url_and_extracted_fields:
  "\<not> extracted pw u h t sel \<Longrightarrow>
   \<exists>r tr. scrape_page pw u h t sel = (Inr r, tr) \<and> \<not> success r \<and> error r \<noteq> [] \<and> url r = u \<and>
     title r = (if navigated pw u h t sel then value_or_empty (page_title pw) else []) \<and>
     content r = (if navigated pw u h t sel \<and> returns (page_title pw)
                  then value_or_empty (page_inner_text pw ''body'') else []) \<and>
     html r = []"
proof (cases "pw_enter pw")
  case (Inl e)
  then show ?thesis
    by (simp add: scrape_page_enter_raises initial_result_def stage_defs error_message_nonempty)
next
  case (Inr x)
  then have en: "pw_enter pw = Inr ()" by simp
  assume "\<not> extracted pw u h t sel"
  then show ?thesis
    by (cases rule: with_body_cases
          [of pw h u t sel "\<lparr>result = initial_result u, events = [EnterPlaywright]\<rparr>"])
       (simp_all add: scrape_page_entered [OF en] en initial_result_def stage_defs
          error_message_nonempty split: sum.splits)
qed

text \<open>The same at a page whose \<^verbatim>\<open>inner_text\<close> raises: the title survives.\<close>

theorem failure_keeps_url_and_extracted_fields_witness:
  "\<not> extracted inner_text_fails ''https://example.org'' True 30000 None \<and>
   (\<exists>r tr. scrape_page inner_text_fails ''https://example.org'' True 30000 None = (Inr r, tr) \<and>
      \<not> success r \<and> error r \<noteq> [] \<and> url r = ''https://example.org'' \<and>
      title r = ''Example Domain'' \<and> content r = [] \<and> html r = [])"
proof -
  have n: "\<not> extracted inner_text_fails ''https://example.org'' True 30000 None"
    by (simp add: stage_defs inner_text_fails_def example_page_def)
  have "navigated inner_text_fails ''https://example.org'' True 30000 None"
    by (simp add: stage_defs inner_text_fails_def example_page_def)
  then show ?thesis
    using n failure_keeps_url_and_extracted_fields [OF n]
    by (auto simp add: inner_text_fails_def example_page_def)
qed

text \<open>
  Claim C2 as stated fails: when \<^verbatim>\<open>page.content()\<close> raises after the title and the
  body text were read, the failing record keeps both, and its \<open>url\<close> is the argument,
  not the empty string.
\<close>

theorem partial_results_counterexample:
  "fst (scrape_page content_fails ''https://example.org'' True 30000 (Some ''main'')) =
     Inr \<lparr>success = False, url = ''https://example.org'', title = ''Example Domain'',
          content = ''Example body'', html = [], error = ''Error scraping page: Page crashed''\<rparr>"
  by (simp add: run_defs)

subsection \<open>Release of the browser\<close>



subsection \<open>The two handlers\<close>







subsection \<open>The selector and the url\<close>

text \<open>
  Claim C9. An empty selector is treated exactly like an absent one: the two calls give
  the same record and the same calls on the capability, and no selector wait is among
  them, so none can time out.
\<close>

theorem empty_selector_skips_wait:
  "scrape_page pw u h t (Some []) = scrape_page pw u h t None \<and>
   (\<forall>s n. WaitForSelector s n \<notin> set (snd (scrape_page pw u h t (Some []))))"
proof
  show "scrape_page pw u h t (Some []) = scrape_page pw u h t None"
    by (simp add: scrape_page_def try_block_def with_body_def)
  show "\<forall>s n. WaitForSelector s n \<notin> set (snd (scrape_page pw u h t (Some [])))"
  proof (cases "pw_enter pw")
    case (Inl e)
    then show ?thesis by (simp add: scrape_page_enter_raises)
  next
    case (Inr x)
    then have en: "pw_enter pw = Inr ()" by simp
    show ?thesis
      by (cases rule: with_body_cases
          [of pw h u t "Some []" "\<lparr>result = initial_result u, events = [EnterPlaywright]\<rparr>"])
         (simp_all add: scrape_page_entered [OF en] navigation_events_def)
  qed
qed

text \<open>
  Claim C10. For every input the \<open>url\<close> field of the returned record is the \<open>url\<close>
  argument, whether the run succeeded or failed.
\<close>

theorem url_field_is_argument:
  "\<exists>r tr. scrape_page pw u h t sel = (Inr r, tr) \<and> url r = u"
proof (cases "pw_enter pw")
  case (Inl e)
  then show ?thesis by (simp add: scrape_page_enter_raises initial_result_def)
next
  case (Inr x)
  then have en: "pw_enter pw = Inr ()" by simp
  show ?thesis
    by (cases rule: with_body_cases
          [of pw h u t sel "\<lparr>result = initial_result u, events = [EnterPlaywright]\<rparr>"])
       (simp_all add: scrape_page_entered [OF en] initial_result_def split: sum.splits)
qed

section \<open>Properties of \<^verbatim>\<open>scrape_statistics_canada_daily\<close>\<close>

subsection \<open>What is written can be read back\<close>













subsection \<open>Directories and paths\<close>






lemma files_print: "files (print line w) = files w"
  by (simp add: print_def)

subsection \<open>Runs of the two example pages\<close>

lemma example_page_scraped:
  "fst (scrape_page example_page statcan_url True 30000 (Some ''main'')) =
     Inr \<lparr>success = True, url = statcan_url, title = ''Example Domain'',
          content = ''Example body'', html = ''<html></html>'', error = []\<rparr>"
  by (simp add: run_defs)


lemma parents_of_output_path: "ancestors_and_self (parent output_path) = [[''output'']]"
  by (simp add: ancestors_and_self_def parent_def output_path_def)

subsection \<open>The saved file\<close>





text \<open>
  Claim C8. Nothing around the file-write step handles an error. When the inner scrape
  succeeded and creating the directories, opening the file or writing it raises, the
  exception is what the call gives back to its caller; no record is returned.
\<close>

theorem file_write_failure_propagates:
  "fst (scrape_page pw statcan_url True 30000 (Some ''main'')) = Inr r \<Longrightarrow> success r \<Longrightarrow>
   (\<forall>e fs1. mkdir_parents env (parent p) (files w) = (Inl e, fs1) \<longrightarrow>
       fst (scrape_statistics_canada_daily env pw (Some p) w) = Inl e) \<and>
   (\<forall>e fs1. mkdir_parents env (parent p) (files w) = (Inr (), fs1) \<and> open_w env p fs1 = Inl e \<longrightarrow>
       fst (scrape_statistics_canada_daily env pw (Some p) w) = Inl e) \<and>
   (\<forall>e fs1 fs2 fs3. mkdir_parents env (parent p) (files w) = (Inr (), fs1) \<and>
       open_w env p fs1 = Inr fs2 \<and>
       write_text env p (json_dump (save_data r) 2 False) fs2 = (Inl e, fs3) \<longrightarrow>
       fst (scrape_statistics_canada_daily env pw (Some p) w) = Inl e)"
  by (simp add: scrape_statistics_canada_daily_def Let_def files_print)

text \<open>A directory that may not be created.\<close>

theorem file_write_failure_propagates_witness:
  "fst (scrape_statistics_canada_daily read_only example_page (Some output_path) empty_world) =
     Inl (OtherException ''Permission denied'')"
proof -
  have "mkdir_parents read_only (parent output_path) (files empty_world) =
      (Inl (OtherException ''Permission denied''), Map.empty)"
    by (simp add: mkdir_parents_def parents_of_output_path read_only_def no_faults_def
        empty_world_def)
  then show ?thesis
    using file_write_failure_propagates [OF example_page_scraped, of read_only output_path empty_world]
    by simp
qed

end
